theory Spec2Isabelle
  imports Complex_Main
begin

section \<open>Data model of the screening pipeline (slr_pipeline.py)\<close>

text \<open>
  The enum \<open>DecisionLayer\<close> of the source: the rules layer, the machine-learning
  layer, the semantic (BERT) layer and the human layer. The constructors carry the
  prefix \<open>LAYER_\<close>.
\<close>

datatype DecisionLayer = LAYER_RULES | LAYER_ML | LAYER_BERT | LAYER_HUMAN

text \<open>
  A study and a criteria value are Python dictionaries with string keys. The pipeline
  only reads them with \<open>.get(key)\<close>, so a dictionary is a partial map; a key that is
  missing and a key whose value is \<open>None\<close> both read as \<open>None\<close>.
\<close>

type_synonym study = "string \<rightharpoonup> string"

type_synonym criteria = "string \<rightharpoonup> string"

text \<open>The dataclass \<open>ScreeningDecision\<close>. Python floats are modelled as exact reals.\<close>

record ScreeningDecision =
  pmid :: "string option"
  title :: "string option"
  abstract :: "string option"
  decision :: string
  confidence :: real
  layer :: DecisionLayer
  reasoning :: string
  prisma_stage :: string

text \<open>The dataclass \<open>SLRMetrics\<close>: four counts, four rates, four confusion counts.\<close>

record SLRMetrics =
  total_retrieved :: int
  total_screened :: int
  total_included :: int
  total_excluded :: int
  precision :: real
  recall :: real
  f1_score :: real
  accuracy :: real
  true_positives :: int
  false_positives :: int
  true_negatives :: int
  false_negatives :: int

datatype py_error = ZeroDivisionError

section \<open>Strings\<close>

text \<open>
  \<open>str.lower()\<close> on the ASCII letters, by table; every other character is left as
  it is.
\<close>

definition lower_char :: "char \<Rightarrow> char" where
  "lower_char c =
     (case map_of (zip ''ABCDEFGHIJKLMNOPQRSTUVWXYZ'' ''abcdefghijklmnopqrstuvwxyz'') c of
        None \<Rightarrow> c
      | Some l \<Rightarrow> l)"

definition lower :: "string \<Rightarrow> string" where
  "lower s = map lower_char s"

text \<open>\<open>text.startswith(kw)\<close>, the step of the substring search.\<close>

fun startswith :: "string \<Rightarrow> string \<Rightarrow> bool" where
  "startswith text [] = True"
| "startswith [] (k # kw) = False"
| "startswith (c # text) (k # kw) = (c = k \<and> startswith text kw)"

text \<open>Python's \<open>kw in text\<close> on strings: \<open>kw\<close> occurs in \<open>text\<close> as a contiguous run.\<close>

fun str_contains :: "string \<Rightarrow> string \<Rightarrow> bool" where
  "str_contains [] kw = (kw = [])"
| "str_contains (c # text) kw = (startswith (c # text) kw \<or> str_contains text kw)"

text \<open>\<open>study.get(key) or ''\<close>: a missing or \<open>None\<close> value reads as the empty string.\<close>

definition get_or_empty :: "(string \<rightharpoonup> string) \<Rightarrow> string \<Rightarrow> string" where
  "get_or_empty d key = (case d key of None \<Rightarrow> [] | Some v \<Rightarrow> v)"

section \<open>The rule gate\<close>

text \<open>
  The two keyword dictionaries set up by \<open>__init__\<close>. A Python dict iterates in
  insertion order, so each is an association list.
\<close>

definition disease_keywords :: "(string \<times> string list) list" where
  "disease_keywords =
     [(''type 2 diabetes'',
         [''t2d'', ''t2dm'', ''type 2 diabetes'', ''niddm'', ''diabetes mellitus type 2'']),
      (''pcos'', [''pcos'', ''polycystic ovary syndrome''])]"

definition trial_keywords :: "(string \<times> string list) list" where
  "trial_keywords =
     [(''randomized controlled trial'',
         [''rct'', ''randomized controlled trial'', ''randomized'']),
      (''clinical trial'', [''clinical trial'', ''trial phase''])]"

text \<open>\<open>any(kw in text for kw in keywords)\<close>.\<close>

definition any_keyword :: "string list \<Rightarrow> string \<Rightarrow> bool" where
  "any_keyword keywords text = list_ex (\<lambda>kw. str_contains text kw) keywords"

text \<open>
  The loop \<open>for name, keywords in groups.items(): if any(...): match = True; break\<close>,
  started with \<open>match = False\<close>. The group's name is bound and never read.
\<close>

fun group_match :: "(string \<times> string list) list \<Rightarrow> string \<Rightarrow> bool" where
  "group_match [] text = False"
| "group_match ((name, keywords) # groups) text =
     (if any_keyword keywords text then True else group_match groups text)"

text \<open>The text the gate searches: \<open>f"{title} {abstract}"\<close> of the two lowercased fields.\<close>

definition study_text :: "study \<Rightarrow> string" where
  "study_text study =
     lower (get_or_empty study ''title'') @ '' '' @ lower (get_or_empty study ''abstract'')"

text \<open>
  \<open>_screen_rules(study, criteria)\<close>. It returns a decision on every path; the
  parameter \<open>criteria\<close> is not read.
\<close>

definition screen_rules :: "study \<Rightarrow> criteria \<Rightarrow> ScreeningDecision" where
  "screen_rules study criteria =
     (let text = study_text study in
      if \<not> group_match disease_keywords text then
        \<lparr>pmid = study ''pmid'', title = study ''title'', abstract = study ''abstract'',
         decision = ''EXCLUDE'', confidence = 0.95, layer = LAYER_RULES,
         reasoning = ''Does not match disease criteria'', prisma_stage = ''Screening''\<rparr>
      else if \<not> group_match trial_keywords text then
        \<lparr>pmid = study ''pmid'', title = study ''title'', abstract = study ''abstract'',
         decision = ''EXCLUDE'', confidence = 0.92, layer = LAYER_RULES,
         reasoning = ''Not a clinical trial'', prisma_stage = ''Screening''\<rparr>
      else
        \<lparr>pmid = study ''pmid'', title = study ''title'', abstract = study ''abstract'',
         decision = ''INCLUDE'', confidence = 0.90, layer = LAYER_RULES,
         reasoning = ''Matches disease and trial criteria'', prisma_stage = ''Inclusion''\<rparr>)"

section \<open>The later layers\<close>

text \<open>
  A model argument is \<open>None\<close> (the default, no model attached) or a Python object.
  The pipeline never calls an object; the only thing it does with one is to test it for
  truth (\<open>if ml_model:\<close>, \<open>if bert_model and ...\<close>). An object is therefore
  modelled by the outcome of its truth test together with its content, which stays
  opaque. An object whose truth test itself raises is not modelled.
\<close>

datatype 'm py_object = PyObject (truth: bool) (content: 'm)

text \<open>Python's truth test of a model argument: \<open>None\<close> is false.\<close>

definition py_truth :: "'m py_object option \<Rightarrow> bool" where
  "py_truth arg = (case arg of None \<Rightarrow> False | Some ob \<Rightarrow> truth ob)"

text \<open>
  \<open>_screen_ml(study, current_decision, ml_model)\<close>: a placeholder that never reads
  \<open>ml_model\<close>. Its reasoning text is the source's literal, written here as a character
  followed by the rest of the literal.
\<close>

definition screen_ml :: "study \<Rightarrow> ScreeningDecision \<Rightarrow> 'm py_object option \<Rightarrow> ScreeningDecision" where
  "screen_ml study current_decision ml_model =
     (if decision current_decision = ''INCLUDE'' then
        \<lparr>pmid = study ''pmid'', title = study ''title'', abstract = study ''abstract'',
         decision = ''INCLUDE'', confidence = 0.92, layer = LAYER_ML,
         reasoning = CHR ''M'' # ''L model: High likelihood of relevance'',
         prisma_stage = prisma_stage current_decision\<rparr>
      else current_decision)"

text \<open>\<open>_screen_bert(study, current_decision, bert_model)\<close>: returns its argument.\<close>

definition screen_bert :: "study \<Rightarrow> ScreeningDecision \<Rightarrow> 'b py_object option \<Rightarrow> ScreeningDecision" where
  "screen_bert study current_decision bert_model = current_decision"

section \<open>The metrics aggregator\<close>

text \<open>Python's \<open>int(x)\<close> on a float: truncation towards zero.\<close>

definition py_int :: "real \<Rightarrow> int" where
  "py_int x = (if 0 \<le> x then \<lfloor>x\<rfloor> else \<lceil>x\<rceil>)"

text \<open>
  \<open>sum(d.confidence for d in decisions) / len(decisions) if decisions else 0\<close>.
\<close>

definition avg_confidence :: "ScreeningDecision list \<Rightarrow> real" where
  "avg_confidence ds =
     (if ds = [] then 0 else sum_list (map confidence ds) / real (length ds))"

text \<open>
  \<open>_compute_metrics()\<close> as a function of \<open>self.decisions\<close>. The division by
  \<open>len(decisions)\<close> only runs on a non-empty list; the division in the \<open>f1_score\<close>
  argument raises \<open>ZeroDivisionError\<close> when its denominator is zero, and then no
  metrics value is built.
\<close>

definition compute_metrics :: "ScreeningDecision list \<Rightarrow> py_error + SLRMetrics" where
  "compute_metrics ds =
     (if ds = [] then
        Inr \<lparr>total_retrieved = 0, total_screened = 0, total_included = 0, total_excluded = 0,
             precision = 0, recall = 0, f1_score = 0, accuracy = 0,
             true_positives = 0, false_positives = 0, true_negatives = 0,
             false_negatives = 0\<rparr>
      else
        let included = int (length (filter (\<lambda>d. decision d = ''INCLUDE'') ds));
            excluded = int (length (filter (\<lambda>d. decision d = ''EXCLUDE'') ds));
            total = included + excluded;
            avg = avg_confidence ds
        in if avg + avg + 0.05 = 0 then Inl ZeroDivisionError
           else
             Inr \<lparr>total_retrieved = total, total_screened = total,
                  total_included = included, total_excluded = excluded,
                  precision = avg,
                  recall = min 0.97 (avg + 0.05),
                  f1_score = (2 * avg * (avg + 0.05)) / (avg + avg + 0.05),
                  accuracy = avg,
                  true_positives = py_int (of_int included * avg),
                  false_positives = py_int (of_int excluded * (1 - avg)),
                  true_negatives = py_int (of_int excluded * avg),
                  false_negatives = py_int (of_int included * (1 - avg))\<rparr>)"

section \<open>The orchestrator\<close>

text \<open>
  The state the loop of \<open>screen_studies\<close> updates: \<open>self.decisions\<close>, and a log of
  the calls of the two later layers (which layer, on which study), kept to state which
  records a later layer was run on.
\<close>

record run_state =
  decisions :: "ScreeningDecision list"
  layer_calls :: "(DecisionLayer \<times> study) list"

text \<open>
  The two optional layers a rule-included study goes through: \<open>_screen_ml\<close> when
  \<open>ml_model\<close> is true, then \<open>_screen_bert\<close> when \<open>bert_model\<close> is true and the
  decision is not EXCLUDE. The result is the decision left at the end and the calls
  made, in order.
\<close>

definition later_layers ::
  "study \<Rightarrow> ScreeningDecision \<Rightarrow> 'm py_object option \<Rightarrow> 'b py_object option
     \<Rightarrow> ScreeningDecision \<times> (DecisionLayer \<times> study) list" where
  "later_layers study d0 ml_model bert_model =
     (let (d1, calls1) =
            (if py_truth ml_model
             then (screen_ml study d0 ml_model, [(LAYER_ML, study)])
             else (d0, []));
          (d2, calls2) =
            (if py_truth bert_model \<and> decision d1 \<noteq> ''EXCLUDE''
             then (screen_bert study d1 bert_model, calls1 @ [(LAYER_BERT, study)])
             else (d1, calls1))
      in (d2, calls2))"

text \<open>
  One turn of \<open>for study in studies\<close>. A \<open>ScreeningDecision\<close> object is always true,
  so \<open>not decision\<close> is false and the final \<open>if decision\<close> always appends; the
  \<open>continue\<close> is taken exactly when the rule gate says EXCLUDE, and then nothing is
  appended.
\<close>

definition screen_study ::
  "study \<Rightarrow> criteria \<Rightarrow> 'm py_object option \<Rightarrow> 'b py_object option \<Rightarrow> run_state \<Rightarrow> run_state" where
  "screen_study study criteria ml_model bert_model st =
     (let d0 = screen_rules study criteria in
      if decision d0 = ''EXCLUDE'' then st
      else
        let (d, calls) = later_layers study d0 ml_model bert_model
        in st\<lparr>decisions := decisions st @ [d], layer_calls := layer_calls st @ calls\<rparr>)"

fun screen_loop ::
  "study list \<Rightarrow> criteria \<Rightarrow> 'm py_object option \<Rightarrow> 'b py_object option \<Rightarrow> run_state \<Rightarrow> run_state" where
  "screen_loop [] criteria ml_model bert_model st = st"
| "screen_loop (study # studies) criteria ml_model bert_model st =
     screen_loop studies criteria ml_model bert_model
       (screen_study study criteria ml_model bert_model st)"

text \<open>The loop started from \<open>self.decisions = []\<close>.\<close>

definition screen_run ::
  "study list \<Rightarrow> criteria \<Rightarrow> 'm py_object option \<Rightarrow> 'b py_object option \<Rightarrow> run_state" where
  "screen_run studies criteria ml_model bert_model =
     screen_loop studies criteria ml_model bert_model \<lparr>decisions = [], layer_calls = []\<rparr>"

text \<open>
  \<open>screen_studies(studies, criteria, ml_model, bert_model)\<close>: the decisions and their
  metrics, or the error the aggregator raised.
\<close>

definition screen_studies ::
  "study list \<Rightarrow> criteria \<Rightarrow> 'm py_object option \<Rightarrow> 'b py_object option
     \<Rightarrow> py_error + (ScreeningDecision list \<times> SLRMetrics)" where
  "screen_studies studies criteria ml_model bert_model =
     (let st = screen_run studies criteria ml_model bert_model in
      case compute_metrics (decisions st) of
        Inl e \<Rightarrow> Inl e
      | Inr metrics \<Rightarrow> Inr (decisions st, metrics))"

section \<open>The explanation of a decision (agent_controller.py)\<close>

text \<open>The dictionary \<open>explain_decision\<close> returns, one field per key.\<close>

record explanation =
  study_id :: string
  exp_decision :: string
  exp_layer :: string
  exp_reasoning :: string
  exp_confidence :: real
  evidence :: "string list"

definition explain_decision :: "string \<Rightarrow> string \<Rightarrow> string \<Rightarrow> explanation" where
  "explain_decision sid dec lay =
     \<lparr>study_id = sid, exp_decision = dec, exp_layer = lay,
      exp_reasoning = ''Study '' @ sid @ '' was '' @ dec @ '' at '' @ lay @ '' layer'',
      exp_confidence = 0.92, evidence = []\<rparr>"

section \<open>Vocabulary of the statements\<close>

text \<open>
  Some keyword of a taxonomy occurs in the text as a substring: the wording of the
  specification, independent of how the gate iterates.
\<close>

definition mentions_keyword :: "(string \<times> string list) list \<Rightarrow> string \<Rightarrow> bool" where
  "mentions_keyword groups text =
     (\<exists>kw \<in> set (concat (map snd groups)). \<exists>pre post. text = pre @ kw @ post)"

text \<open>The rule gate excludes the study.\<close>

definition rule_excluded :: "study \<Rightarrow> criteria \<Rightarrow> bool" where
  "rule_excluded study criteria = (decision (screen_rules study criteria) = ''EXCLUDE'')"

text \<open>What the aggregator reads of a decision: its verdict and its confidence.\<close>

definition verdict_and_confidence :: "ScreeningDecision \<Rightarrow> string \<times> real" where
  "verdict_and_confidence d = (decision d, confidence d)"

section \<open>Concrete inputs\<close>

text \<open>The two records and the criteria of the specification's end-to-end scenario.\<close>

definition study_rct :: study where
  "study_rct =
     [''pmid'' \<mapsto> ''1'', ''title'' \<mapsto> ''RCT of type 2 diabetes treatment'',
      ''abstract'' \<mapsto> []]"

definition study_cooking :: study where
  "study_cooking =
     [''pmid'' \<mapsto> ''2'', ''title'' \<mapsto> ''A cooking article'', ''abstract'' \<mapsto> []]"

definition criteria_t2d :: criteria where
  "criteria_t2d =
     [''disease'' \<mapsto> ''type 2 diabetes'', ''study_type'' \<mapsto> ''randomized controlled trial'']"

text \<open>A trial on the other disease.\<close>

definition study_pcos_trial :: study where
  "study_pcos_trial =
     [''pmid'' \<mapsto> ''4'', ''title'' \<mapsto> ''PCOS randomized trial'', ''abstract'' \<mapsto> []]"

text \<open>A decision held with full confidence, as a human reviewer's would be.\<close>

definition certain_decision :: ScreeningDecision where
  "certain_decision =
     \<lparr>pmid = Some ''1'', title = Some ''RCT of type 2 diabetes treatment'',
      abstract = Some [], decision = ''INCLUDE'', confidence = 1, layer = LAYER_HUMAN,
      reasoning = ''Reviewer decision'', prisma_stage = ''Inclusion''\<rparr>"

text \<open>
  A scorer whose every call fails (\<open>None\<close> stands for the exception), attached as an
  object that is true, as an instance of an ordinary class is, and as an object that is
  false, as an empty container is.
\<close>

definition failing_scorer :: "study \<Rightarrow> ScreeningDecision \<Rightarrow> ScreeningDecision option" where
  "failing_scorer study prior = None"

definition failing_model ::
  "(study \<Rightarrow> ScreeningDecision \<Rightarrow> ScreeningDecision option) py_object option" where
  "failing_model = Some (PyObject True failing_scorer)"

definition falsy_model ::
  "(study \<Rightarrow> ScreeningDecision \<Rightarrow> ScreeningDecision option) py_object option" where
  "falsy_model = Some (PyObject False failing_scorer)"

text \<open>
  Records whose keywords stand in the abstract, in mixed case: a trial on the disease,
  a review on the disease, and a record on neither.
\<close>

definition study_abstract_trial :: study where
  "study_abstract_trial =
     [''pmid'' \<mapsto> ''5'', ''title'' \<mapsto> ''Metformin Outcomes'',
      ''abstract'' \<mapsto> ''A Randomized study in T2DM patients'']"

definition study_abstract_review :: study where
  "study_abstract_review =
     [''pmid'' \<mapsto> ''6'', ''title'' \<mapsto> ''Narrative Review'',
      ''abstract'' \<mapsto> ''Care of NIDDM'']"

definition study_abstract_none :: study where
  "study_abstract_none =
     [''pmid'' \<mapsto> ''7'', ''title'' \<mapsto> ''Cooking'', ''abstract'' \<mapsto> ''Recipes For Dinner'']"

text \<open>
  A record whose title ends where a disease keyword begins: the keyword is only there
  when title and abstract are joined with nothing between them.
\<close>

definition study_split :: study where
  "study_split =
     [''pmid'' \<mapsto> ''8'', ''title'' \<mapsto> ''Randomized T2'', ''abstract'' \<mapsto> ''D'']"

section \<open>Substring search and keyword groups\<close>

text \<open>
  The search functions compute substring containment, and the loop over the groups of a
  taxonomy finds a keyword exactly when one of them occurs in the text.
\<close>

lemma startswith_iff: "startswith t kw \<longleftrightarrow> (\<exists>post. t = kw @ post)"
  by (induction t kw rule: startswith.induct) auto

lemma str_contains_iff: "str_contains t kw \<longleftrightarrow> (\<exists>pre post. t = pre @ kw @ post)"
proof (induction t)
  case Nil
  then show ?case by auto
next
  case (Cons c t)
  show ?case
  proof
    assume "str_contains (c # t) kw"
    then consider "startswith (c # t) kw" | "str_contains t kw" by auto
    then show "\<exists>pre post. c # t = pre @ kw @ post"
    proof cases
      case 1
      then obtain post where "c # t = kw @ post" using startswith_iff by blast
      then have "c # t = [] @ kw @ post" by simp
      then show ?thesis by blast
    next
      case 2
      then obtain pre post where "t = pre @ kw @ post" using Cons.IH by blast
      then have "c # t = (c # pre) @ kw @ post" by simp
      then show ?thesis by blast
    qed
  next
    assume "\<exists>pre post. c # t = pre @ kw @ post"
    then obtain pre post where eq: "c # t = pre @ kw @ post" by blast
    show "str_contains (c # t) kw"
    proof (cases pre)
      case Nil
      with eq have "startswith (c # t) kw" using startswith_iff by auto
      then show ?thesis by simp
    next
      case (Cons p pre')
      with eq have "t = pre' @ kw @ post" by simp
      then have "str_contains t kw" using Cons.IH by blast
      then show ?thesis by simp
    qed
  qed
qed

lemma any_keyword_iff:
  "any_keyword keywords t \<longleftrightarrow> (\<exists>kw \<in> set keywords. \<exists>pre post. t = pre @ kw @ post)"
  by (simp add: any_keyword_def list_ex_iff str_contains_iff)

lemma group_match_list_ex:
  "group_match groups t = list_ex (\<lambda>g. any_keyword (snd g) t) groups"
proof (induction groups)
  case Nil
  show ?case by simp
next
  case (Cons g groups)
  then show ?case by (cases g) simp
qed

lemma group_match_iff: "group_match groups t \<longleftrightarrow> mentions_keyword groups t"
  unfolding group_match_list_ex mentions_keyword_def list_ex_iff any_keyword_iff
  by auto

section \<open>The rule gate's case analysis\<close>

text \<open>
  Lowercasing maps the capital ASCII letters to the small ones and leaves every other
  character alone; the text the gate searches is the lowercased title, one space, and
  the lowercased abstract, a missing field read as the empty string.
\<close>

lemma lower_capitals: "lower ''ABCDEFGHIJKLMNOPQRSTUVWXYZ'' = ''abcdefghijklmnopqrstuvwxyz''"
  by (simp add: lower_def lower_char_def)

lemma lower_char_other: "c \<notin> set ''ABCDEFGHIJKLMNOPQRSTUVWXYZ'' \<Longrightarrow> lower_char c = c"
  by (simp add: lower_char_def)

lemma lower_length: "length (lower s) = length s"
  by (simp add: lower_def)

lemma study_text_eq:
  "study_text study =
     lower (case study ''title'' of None \<Rightarrow> [] | Some v \<Rightarrow> v) @ '' '' @
     lower (case study ''abstract'' of None \<Rightarrow> [] | Some v \<Rightarrow> v)"
  by (simp add: study_text_def get_or_empty_def)

text \<open>
  Claim C2 fails as stated, on the plain concatenation of title and abstract: for the
  title \<open>Randomized T2\<close> and the abstract \<open>D\<close> the lowercase concatenation
  \<open>randomized t2d\<close> holds the disease keyword \<open>t2d\<close> and the trial keyword
  \<open>randomized\<close>, so the claim gives INCLUDE with confidence 0.90; the gate searches
  \<open>randomized t2 d\<close>, finds no disease keyword and returns EXCLUDE with confidence
  0.95 at stage Screening.
\<close>

theorem screen_rules_plain_concatenation_counterexample:
  "study_split ''title'' = Some ''Randomized T2'' \<and>
   study_split ''abstract'' = Some ''D'' \<and>
   lower ''Randomized T2'' @ lower ''D'' = ''randomized t2d'' \<and>
   mentions_keyword disease_keywords ''randomized t2d'' \<and>
   mentions_keyword trial_keywords ''randomized t2d'' \<and>
   decision (screen_rules study_split criteria_t2d) = ''EXCLUDE'' \<and>
   confidence (screen_rules study_split criteria_t2d) = 0.95 \<and>
   prisma_stage (screen_rules study_split criteria_t2d) = ''Screening''"
proof -
  have t: "study_text study_split = ''randomized t2 d''"
    by (simp add: study_text_def study_split_def lower_def lower_char_def get_or_empty_def)
  have g: "\<not> group_match disease_keywords ''randomized t2 d''"
    by (simp add: disease_keywords_def any_keyword_def)
  have d: "group_match disease_keywords ''randomized t2d''"
    by (simp add: disease_keywords_def any_keyword_def)
  have r: "group_match trial_keywords ''randomized t2d''"
    by (simp add: trial_keywords_def any_keyword_def)
  have l: "lower ''Randomized T2'' @ lower ''D'' = ''randomized t2d''"
    by (simp add: lower_def lower_char_def)
  have s: "study_split ''title'' = Some ''Randomized T2''" "study_split ''abstract'' = Some ''D''"
    by (simp_all add: study_split_def)
  show ?thesis
    using g d r l s by (simp add: screen_rules_def t group_match_iff)
qed

text \<open>
  Claim C2, amended. For every record and criteria, the rule gate makes its case
  analysis on the lowercased title and the lowercased abstract joined by a single
  space (a missing title or abstract read as the empty string): when no disease
  keyword occurs in that text the decision is EXCLUDE with confidence 0.95 and stage
  Screening; when a disease keyword occurs and no trial-type keyword does, EXCLUDE with
  confidence 0.92 and stage Screening; when both occur, INCLUDE with confidence 0.90
  and stage Inclusion.
\<close>

theorem screen_rules_case_analysis:
  "(let t = lower (case study ''title'' of None \<Rightarrow> [] | Some v \<Rightarrow> v) @ '' '' @
            lower (case study ''abstract'' of None \<Rightarrow> [] | Some v \<Rightarrow> v);
        d = screen_rules study criteria
    in (\<not> mentions_keyword disease_keywords t \<longrightarrow>
          decision d = ''EXCLUDE'' \<and> confidence d = 0.95 \<and> prisma_stage d = ''Screening'') \<and>
       (mentions_keyword disease_keywords t \<and> \<not> mentions_keyword trial_keywords t \<longrightarrow>
          decision d = ''EXCLUDE'' \<and> confidence d = 0.92 \<and> prisma_stage d = ''Screening'') \<and>
       (mentions_keyword disease_keywords t \<and> mentions_keyword trial_keywords t \<longrightarrow>
          decision d = ''INCLUDE'' \<and> confidence d = 0.90 \<and> prisma_stage d = ''Inclusion''))"
  by (simp add: screen_rules_def Let_def group_match_iff study_text_eq)

text \<open>The texts of the concrete records, and what the two gates find in them.\<close>

lemma text_rct: "study_text study_rct = ''rct of type 2 diabetes treatment ''"
  by (simp add: study_text_def study_rct_def lower_def lower_char_def get_or_empty_def)

lemma text_cooking: "study_text study_cooking = ''a cooking article ''"
  by (simp add: study_text_def study_cooking_def lower_def lower_char_def get_or_empty_def)

lemma text_pcos_trial: "study_text study_pcos_trial = ''pcos randomized trial ''"
  by (simp add: study_text_def study_pcos_trial_def lower_def lower_char_def get_or_empty_def)

lemma gates_rct:
  "group_match disease_keywords (study_text study_rct)"
  "group_match trial_keywords (study_text study_rct)"
  by (simp_all add: text_rct disease_keywords_def trial_keywords_def any_keyword_def)

lemma gates_cooking:
  "\<not> group_match disease_keywords (study_text study_cooking)"
  by (simp_all add: text_cooking disease_keywords_def trial_keywords_def any_keyword_def)

lemma gates_pcos_trial:
  "group_match disease_keywords (study_text study_pcos_trial)"
  "group_match trial_keywords (study_text study_pcos_trial)"
  by (simp_all add: text_pcos_trial disease_keywords_def trial_keywords_def any_keyword_def)

text \<open>
  The three cases at three records whose keywords stand in the abstract in mixed case:
  a record on neither, a review on the disease, and a randomized trial on the disease.
\<close>

theorem screen_rules_case_analysis_witness:
  "(decision (screen_rules study_abstract_none criteria_t2d) = ''EXCLUDE'' \<and>
    confidence (screen_rules study_abstract_none criteria_t2d) = 0.95 \<and>
    prisma_stage (screen_rules study_abstract_none criteria_t2d) = ''Screening'') \<and>
   (decision (screen_rules study_abstract_review criteria_t2d) = ''EXCLUDE'' \<and>
    confidence (screen_rules study_abstract_review criteria_t2d) = 0.92 \<and>
    prisma_stage (screen_rules study_abstract_review criteria_t2d) = ''Screening'') \<and>
   (decision (screen_rules study_abstract_trial criteria_t2d) = ''INCLUDE'' \<and>
    confidence (screen_rules study_abstract_trial criteria_t2d) = 0.90 \<and>
    prisma_stage (screen_rules study_abstract_trial criteria_t2d) = ''Inclusion'')"
proof -
  have tn: "lower (case study_abstract_none ''title'' of None \<Rightarrow> [] | Some v \<Rightarrow> v) @ '' '' @
            lower (case study_abstract_none ''abstract'' of None \<Rightarrow> [] | Some v \<Rightarrow> v) =
            ''cooking recipes for dinner''"
    by (simp add: study_abstract_none_def lower_def lower_char_def)
  have tr: "lower (case study_abstract_review ''title'' of None \<Rightarrow> [] | Some v \<Rightarrow> v) @ '' '' @
            lower (case study_abstract_review ''abstract'' of None \<Rightarrow> [] | Some v \<Rightarrow> v) =
            ''narrative review care of niddm''"
    by (simp add: study_abstract_review_def lower_def lower_char_def)
  have tt: "lower (case study_abstract_trial ''title'' of None \<Rightarrow> [] | Some v \<Rightarrow> v) @ '' '' @
            lower (case study_abstract_trial ''abstract'' of None \<Rightarrow> [] | Some v \<Rightarrow> v) =
            ''metformin outcomes a randomized study in t2dm patients''"
    by (simp add: study_abstract_trial_def lower_def lower_char_def)
  have n: "\<not> mentions_keyword disease_keywords ''cooking recipes for dinner''"
    unfolding group_match_iff [symmetric]
    by (simp add: disease_keywords_def any_keyword_def)
  have r: "mentions_keyword disease_keywords ''narrative review care of niddm'' \<and>
           \<not> mentions_keyword trial_keywords ''narrative review care of niddm''"
    unfolding group_match_iff [symmetric]
    by (simp add: disease_keywords_def trial_keywords_def any_keyword_def)
  have t: "mentions_keyword disease_keywords
             ''metformin outcomes a randomized study in t2dm patients'' \<and>
           mentions_keyword trial_keywords
             ''metformin outcomes a randomized study in t2dm patients''"
    unfolding group_match_iff [symmetric]
    by (simp add: disease_keywords_def trial_keywords_def any_keyword_def)
  from n screen_rules_case_analysis [of study_abstract_none criteria_t2d]
  have 1: "decision (screen_rules study_abstract_none criteria_t2d) = ''EXCLUDE'' \<and>
    confidence (screen_rules study_abstract_none criteria_t2d) = 0.95 \<and>
    prisma_stage (screen_rules study_abstract_none criteria_t2d) = ''Screening''"
    unfolding Let_def tn by blast
  from r screen_rules_case_analysis [of study_abstract_review criteria_t2d]
  have 2: "decision (screen_rules study_abstract_review criteria_t2d) = ''EXCLUDE'' \<and>
    confidence (screen_rules study_abstract_review criteria_t2d) = 0.92 \<and>
    prisma_stage (screen_rules study_abstract_review criteria_t2d) = ''Screening''"
    unfolding Let_def tr by blast
  from t screen_rules_case_analysis [of study_abstract_trial criteria_t2d]
  have 3: "decision (screen_rules study_abstract_trial criteria_t2d) = ''INCLUDE'' \<and>
    confidence (screen_rules study_abstract_trial criteria_t2d) = 0.90 \<and>
    prisma_stage (screen_rules study_abstract_trial criteria_t2d) = ''Inclusion''"
    unfolding Let_def tt by blast
  from 1 2 3 show ?thesis by (intro conjI) simp_all
qed

section \<open>The orchestrator's loop\<close>

text \<open>
  What the rule gate returns, and what one run of the loop leaves in the state: the
  decisions and the layer calls of the studies the gate does not exclude, in input order.
\<close>

lemma py_truth_None [simp]: "\<not> py_truth None"
  by (simp add: py_truth_def)

lemma py_truth_Some [simp]: "py_truth (Some (PyObject b x)) = b"
  by (simp add: py_truth_def)

lemma py_truth_failing_model [simp]: "py_truth failing_model"
  by (simp add: failing_model_def)

lemma py_truth_falsy_model [simp]: "\<not> py_truth falsy_model"
  by (simp add: falsy_model_def)

lemma screen_rules_pmid: "pmid (screen_rules s c) = s ''pmid''"
  by (simp add: screen_rules_def Let_def)

lemma screen_rules_verdict:
  "decision (screen_rules s c) = (if rule_excluded s c then ''EXCLUDE'' else ''INCLUDE'')"
  by (simp add: rule_excluded_def screen_rules_def Let_def)

lemma screen_rules_included:
  "\<not> rule_excluded s c \<Longrightarrow>
     decision (screen_rules s c) = ''INCLUDE'' \<and> confidence (screen_rules s c) = 0.90 \<and>
     layer (screen_rules s c) = LAYER_RULES"
  by (simp add: rule_excluded_def screen_rules_def Let_def split: if_splits)

lemma screen_rules_criteria: "screen_rules s c = screen_rules s c'"
  by (simp add: screen_rules_def)

lemma later_layers_decision:
  "decision d0 = ''INCLUDE'' \<Longrightarrow>
     fst (later_layers s d0 ml bert) = (if py_truth ml then screen_ml s d0 ml else d0)"
  by (simp add: later_layers_def screen_ml_def screen_bert_def)

lemma later_layers_calls:
  "decision d0 = ''INCLUDE'' \<Longrightarrow>
     snd (later_layers s d0 ml bert) =
       (if py_truth ml then [(LAYER_ML, s)] else []) @
       (if py_truth bert then [(LAYER_BERT, s)] else [])"
  by (simp add: later_layers_def screen_ml_def screen_bert_def)

lemma screen_study_excluded:
  "rule_excluded s c \<Longrightarrow> screen_study s c ml bert st = st"
  by (simp add: screen_study_def rule_excluded_def)

lemma screen_study_included:
  "\<not> rule_excluded s c \<Longrightarrow>
     screen_study s c ml bert st =
       st\<lparr>decisions := decisions st @ [fst (later_layers s (screen_rules s c) ml bert)],
          layer_calls := layer_calls st @ snd (later_layers s (screen_rules s c) ml bert)\<rparr>"
  by (simp add: screen_study_def rule_excluded_def Let_def split: prod.splits)

lemma screen_loop_decisions:
  "decisions (screen_loop studies c ml bert st) =
     decisions st @
       map (\<lambda>s. fst (later_layers s (screen_rules s c) ml bert))
         (filter (\<lambda>s. \<not> rule_excluded s c) studies)"
proof (induction studies arbitrary: st)
  case Nil
  show ?case by simp
next
  case (Cons s studies)
  show ?case
  proof (cases "rule_excluded s c")
    case True
    then show ?thesis by (simp add: Cons.IH screen_study_excluded)
  next
    case False
    then show ?thesis by (simp add: Cons.IH screen_study_included)
  qed
qed

lemma screen_loop_calls:
  "layer_calls (screen_loop studies c ml bert st) =
     layer_calls st @
       concat (map (\<lambda>s. snd (later_layers s (screen_rules s c) ml bert))
         (filter (\<lambda>s. \<not> rule_excluded s c) studies))"
proof (induction studies arbitrary: st)
  case Nil
  show ?case by simp
next
  case (Cons s studies)
  show ?case
  proof (cases "rule_excluded s c")
    case True
    then show ?thesis by (simp add: Cons.IH screen_study_excluded)
  next
    case False
    then show ?thesis by (simp add: Cons.IH screen_study_included)
  qed
qed

lemma screen_run_decisions:
  "decisions (screen_run studies c ml bert) =
     map (\<lambda>s. fst (later_layers s (screen_rules s c) ml bert))
       (filter (\<lambda>s. \<not> rule_excluded s c) studies)"
  by (simp add: screen_run_def screen_loop_decisions)

lemma screen_run_calls:
  "layer_calls (screen_run studies c ml bert) =
     concat (map (\<lambda>s. snd (later_layers s (screen_rules s c) ml bert))
       (filter (\<lambda>s. \<not> rule_excluded s c) studies))"
  by (simp add: screen_run_def screen_loop_calls)

lemma final_decision_facts:
  assumes "\<not> rule_excluded s c"
  shows "pmid (fst (later_layers s (screen_rules s c) ml bert)) = s ''pmid''"
    and "decision (fst (later_layers s (screen_rules s c) ml bert)) = ''INCLUDE''"
    and "confidence (fst (later_layers s (screen_rules s c) ml bert)) =
           (if py_truth ml then 0.92 else 0.90)"
    and "layer (fst (later_layers s (screen_rules s c) ml bert)) =
           (if py_truth ml then LAYER_ML else LAYER_RULES)"
  using screen_rules_included [OF assms]
  by (simp_all add: later_layers_decision screen_ml_def screen_rules_pmid)

lemma screen_run_confidence:
  "d \<in> set (decisions (screen_run studies c ml bert)) \<Longrightarrow> 0 \<le> confidence d"
  by (auto simp: screen_run_decisions final_decision_facts)

text \<open>
  The aggregator returns on every list of decisions with confidences that are not
  negative, so \<open>screen_studies\<close> always returns.
\<close>

lemma sum_list_confidence_nonneg:
  "(\<And>d. d \<in> set ds \<Longrightarrow> 0 \<le> confidence d) \<Longrightarrow> 0 \<le> sum_list (map confidence ds)"
  by (induction ds) auto

lemma avg_confidence_nonneg:
  assumes "\<And>d. d \<in> set ds \<Longrightarrow> 0 \<le> confidence d"
  shows "0 \<le> avg_confidence ds"
  using sum_list_confidence_nonneg [OF assms] by (simp add: avg_confidence_def)

lemma compute_metrics_returns:
  assumes "\<And>d. d \<in> set ds \<Longrightarrow> 0 \<le> confidence d"
  shows "\<exists>m. compute_metrics ds = Inr m"
proof -
  have "0 \<le> avg_confidence ds" using assms by (rule avg_confidence_nonneg)
  then have "avg_confidence ds + avg_confidence ds + 0.05 \<noteq> 0" by simp
  then show ?thesis by (simp add: compute_metrics_def Let_def)
qed

lemma screen_studies_returns:
  "\<exists>m. screen_studies studies c ml bert = Inr (decisions (screen_run studies c ml bert), m)"
proof -
  obtain m where "compute_metrics (decisions (screen_run studies c ml bert)) = Inr m"
    using compute_metrics_returns screen_run_confidence by blast
  then show ?thesis by (simp add: screen_studies_def)
qed

text \<open>The scenario's two records under the rule gate, and the run on them.\<close>

lemma excluded_cooking: "rule_excluded study_cooking criteria_t2d"
  using gates_cooking by (simp add: rule_excluded_def screen_rules_def)

lemma included_rct: "\<not> rule_excluded study_rct criteria_t2d"
  using gates_rct by (simp add: rule_excluded_def screen_rules_def)

lemma screen_rules_rct:
  "screen_rules study_rct criteria_t2d =
     \<lparr>pmid = Some ''1'', title = Some ''RCT of type 2 diabetes treatment'', abstract = Some [],
      decision = ''INCLUDE'', confidence = 0.90, layer = LAYER_RULES,
      reasoning = ''Matches disease and trial criteria'', prisma_stage = ''Inclusion''\<rparr>"
  using gates_rct by (simp add: screen_rules_def study_rct_def)

lemma run_rct_cooking:
  "decisions (screen_run [study_rct, study_cooking] criteria_t2d None None) =
     [screen_rules study_rct criteria_t2d]"
  using included_rct excluded_cooking screen_rules_included [OF included_rct]
  by (simp add: screen_run_decisions later_layers_decision)

lemma metrics_rct:
  "compute_metrics [screen_rules study_rct criteria_t2d] =
     Inr \<lparr>total_retrieved = 1, total_screened = 1, total_included = 1, total_excluded = 0,
          precision = 0.9, recall = 0.95, f1_score = 171 / 185, accuracy = 0.9,
          true_positives = 0, false_positives = 0, true_negatives = 0,
          false_negatives = 0\<rparr>"
  by (simp add: screen_rules_rct compute_metrics_def avg_confidence_def py_int_def Let_def)

section \<open>Order and length of the output\<close>

text \<open>
  Claim C1 fails as stated: on the scenario's two records the run returns one decision,
  for record 1 only. The cooking article, which the rule gate excludes, has no decision
  in the output, so the output is shorter than the input.
\<close>

theorem screen_studies_drops_excluded_counterexample:
  "screen_studies [study_rct, study_cooking] criteria_t2d (None :: unit py_object option) (None :: unit py_object option) =
     Inr ([\<lparr>pmid = Some ''1'', title = Some ''RCT of type 2 diabetes treatment'',
            abstract = Some [], decision = ''INCLUDE'', confidence = 0.90,
            layer = LAYER_RULES, reasoning = ''Matches disease and trial criteria'',
            prisma_stage = ''Inclusion''\<rparr>],
          \<lparr>total_retrieved = 1, total_screened = 1, total_included = 1, total_excluded = 0,
           precision = 0.9, recall = 0.95, f1_score = 171 / 185, accuracy = 0.9,
           true_positives = 0, false_positives = 0, true_negatives = 0,
           false_negatives = 0\<rparr>)"
  using metrics_rct by (simp add: screen_studies_def run_rct_cooking screen_rules_rct)

text \<open>
  Claim C1, amended. For every input sequence, criteria and attached models,
  \<open>screen_studies\<close> returns, and its decisions are one per input record that the rule
  gate does not exclude, in input order: their record ids are the ids of those records
  in the order of the input, and the output is at most as long as the input (empty for
  the empty input).
\<close>

theorem screen_studies_order:
  "\<exists>ds m. screen_studies studies criteria ml_model bert_model = Inr (ds, m) \<and>
     map pmid ds = map (\<lambda>s. s ''pmid'') (filter (\<lambda>s. \<not> rule_excluded s criteria) studies) \<and>
     length ds \<le> length studies"
proof -
  let ?ds = "decisions (screen_run studies criteria ml_model bert_model)"
  obtain m where m: "screen_studies studies criteria ml_model bert_model = Inr (?ds, m)"
    using screen_studies_returns by blast
  have "map pmid ?ds =
          map (\<lambda>s. s ''pmid'') (filter (\<lambda>s. \<not> rule_excluded s criteria) studies)"
    by (simp add: screen_run_decisions final_decision_facts(1))
  moreover have "length ?ds \<le> length studies"
    by (simp add: screen_run_decisions)
  ultimately show ?thesis using m by blast
qed

section \<open>A run with no model attached\<close>

text \<open>
  Claim C10. With no model attached, every decision \<open>screen_studies\<close> returns is
  INCLUDE: the output is the rule gate's decisions of the records it does not exclude,
  and an excluded record contributes no element.
\<close>

theorem rules_only_run_includes_only:
  "\<exists>ds m. screen_studies studies criteria (None :: 'm py_object option) (None :: 'b py_object option) = Inr (ds, m) \<and>
     (\<forall>d \<in> set ds. decision d = ''INCLUDE'') \<and>
     ds = map (\<lambda>s. screen_rules s criteria)
            (filter (\<lambda>s. \<not> rule_excluded s criteria) studies)"
proof -
  let ?ds = "decisions (screen_run studies criteria (None :: 'm py_object option) (None :: 'b py_object option))"
  obtain m where m: "screen_studies studies criteria (None :: 'm py_object option) (None :: 'b py_object option) = Inr (?ds, m)"
    using screen_studies_returns by blast
  have eq: "?ds = map (\<lambda>s. screen_rules s criteria)
                    (filter (\<lambda>s. \<not> rule_excluded s criteria) studies)"
    by (simp add: screen_run_decisions later_layers_decision screen_rules_included)
  have "\<forall>d \<in> set ?ds. decision d = ''INCLUDE''"
    by (auto simp: eq screen_rules_included)
  with eq m show ?thesis by blast
qed

text \<open>The scenario's run: one INCLUDE decision, nothing for the cooking article.\<close>

theorem rules_only_run_includes_only_witness:
  "\<exists>ds m. screen_studies [study_rct, study_cooking] criteria_t2d (None :: unit py_object option) (None :: unit py_object option) = Inr (ds, m) \<and>
     map decision ds = [''INCLUDE''] \<and> ds = [screen_rules study_rct criteria_t2d]"
proof -
  from rules_only_run_includes_only
    [where ?'m = unit and ?'b = unit, of "[study_rct, study_cooking]" criteria_t2d]
  obtain ds m where
    r: "screen_studies [study_rct, study_cooking] criteria_t2d (None :: unit py_object option) (None :: unit py_object option) = Inr (ds, m)"
    and a: "\<forall>d \<in> set ds. decision d = ''INCLUDE''"
    and e: "ds = map (\<lambda>s. screen_rules s criteria_t2d)
                   (filter (\<lambda>s. \<not> rule_excluded s criteria_t2d) [study_rct, study_cooking])"
    by blast
  from e have ds: "ds = [screen_rules study_rct criteria_t2d]"
    using included_rct excluded_cooking by simp
  with a have v: "map decision ds = [''INCLUDE'']" by simp
  show ?thesis
    by (rule exI [of _ ds], rule exI [of _ m]) (use r v ds in simp)
qed

section \<open>The later layers in a run\<close>

text \<open>
  The decisions of a run written out: they depend on whether a model is attached for
  the second layer, and on nothing else about the two model objects.
\<close>

lemma screen_ml_model: "screen_ml s d ml = screen_ml s d ml'"
  by (simp add: screen_ml_def)

lemma screen_run_decisions_explicit:
  "decisions (screen_run studies c ml bert) =
     map (\<lambda>s. if py_truth ml then screen_ml s (screen_rules s c) (None :: unit py_object option)
               else screen_rules s c)
       (filter (\<lambda>s. \<not> rule_excluded s c) studies)"
proof -
  have "fst (later_layers s (screen_rules s c) ml bert) =
          (if py_truth ml then screen_ml s (screen_rules s c) (None :: unit py_object option)
           else screen_rules s c)"
    if "\<not> rule_excluded s c" for s
    using screen_rules_included [OF that]
    by (simp add: later_layers_decision screen_ml_def)
  then show ?thesis by (simp add: screen_run_decisions cong: map_cong)
qed

lemma screen_studies_by_decisions:
  "decisions (screen_run studies c ml bert) = decisions (screen_run studies' c' ml' bert') \<Longrightarrow>
     screen_studies studies c ml bert = screen_studies studies' c' ml' bert'"
  by (simp add: screen_studies_def Let_def split: sum.splits)

text \<open>
  Claim C4 fails as stated in its last part: the record the rule gate excludes has no
  final decision at all. The run on the cooking article alone, with both models
  attached, returns no decision, although the gate's decision for it is EXCLUDE.
\<close>

theorem excluded_record_has_no_decision_counterexample:
  "decision (screen_rules study_cooking criteria_t2d) = ''EXCLUDE'' \<and>
   screen_studies [study_cooking] criteria_t2d failing_model failing_model =
     Inr ([],
          \<lparr>total_retrieved = 0, total_screened = 0, total_included = 0, total_excluded = 0,
           precision = 0, recall = 0, f1_score = 0, accuracy = 0,
           true_positives = 0, false_positives = 0, true_negatives = 0,
           false_negatives = 0\<rparr>)"
  using excluded_cooking
  by (simp add: rule_excluded_def screen_studies_def screen_run_decisions compute_metrics_def)

text \<open>
  Claim C4, amended. In every run, with any models attached, each call of a later layer
  is on a record of the input that the rule gate does not exclude; and a record the
  gate excludes contributes nothing: the decisions are those of the run on the input
  without the excluded records, one per record that is not excluded.
\<close>

theorem later_layers_skip_excluded:
  "(\<forall>(l, s) \<in> set (layer_calls (screen_run studies criteria ml_model bert_model)).
      s \<in> set studies \<and> \<not> rule_excluded s criteria) \<and>
   decisions (screen_run studies criteria ml_model bert_model) =
     decisions (screen_run (filter (\<lambda>s. \<not> rule_excluded s criteria) studies)
                  criteria ml_model bert_model) \<and>
   length (decisions (screen_run studies criteria ml_model bert_model)) =
     length (filter (\<lambda>s. \<not> rule_excluded s criteria) studies)"
proof (intro conjI)
  show "\<forall>(l, s) \<in> set (layer_calls (screen_run studies criteria ml_model bert_model)).
          s \<in> set studies \<and> \<not> rule_excluded s criteria"
    by (auto simp: screen_run_calls later_layers_calls screen_rules_included split: if_splits)
  show "decisions (screen_run studies criteria ml_model bert_model) =
          decisions (screen_run (filter (\<lambda>s. \<not> rule_excluded s criteria) studies)
                       criteria ml_model bert_model)"
    by (simp add: screen_run_decisions)
  show "length (decisions (screen_run studies criteria ml_model bert_model)) =
          length (filter (\<lambda>s. \<not> rule_excluded s criteria) studies)"
    by (simp add: screen_run_decisions)
qed

text \<open>The calls of the scenario's run with both models attached.\<close>

lemma calls_rct_cooking:
  "layer_calls (screen_run [study_rct, study_cooking] criteria_t2d
      failing_model failing_model) =
     [(LAYER_ML, study_rct), (LAYER_BERT, study_rct)]"
  using included_rct excluded_cooking screen_rules_included [OF included_rct]
  by (simp add: screen_run_calls later_layers_calls)

text \<open>
  On the scenario's records both later layers run on record 1 and neither on the
  cooking article.
\<close>

theorem later_layers_skip_excluded_witness:
  "layer_calls (screen_run [study_rct, study_cooking] criteria_t2d
      failing_model failing_model) =
     [(LAYER_ML, study_rct), (LAYER_BERT, study_rct)] \<and>
   \<not> rule_excluded study_rct criteria_t2d \<and>
   rule_excluded study_cooking criteria_t2d \<and>
   length (decisions (screen_run [study_rct, study_cooking] criteria_t2d
      failing_model failing_model)) = 1"
proof -
  note t = later_layers_skip_excluded
    [of "[study_rct, study_cooking]" criteria_t2d failing_model failing_model]
  from t have "\<not> rule_excluded study_rct criteria_t2d"
    by (simp add: calls_rct_cooking)
  moreover from t [THEN conjunct2, THEN conjunct2] have
    "length (decisions (screen_run [study_rct, study_cooking] criteria_t2d
       failing_model failing_model)) = 1"
    using excluded_cooking included_rct by simp
  ultimately show ?thesis using excluded_cooking calls_rct_cooking by simp
qed

section \<open>Attached models and failures\<close>

text \<open>
  Claim C5 fails as stated: a run with an always-failing scorer attached as the
  second layer's model (an object that is true) does not return the decisions of the
  run with no model. The scorer is never called; the layer's placeholder marks record 1
  with confidence 0.92, where the rule gate alone gives 0.90.
\<close>

theorem failing_plugin_changes_run_counterexample:
  "screen_studies [study_rct] criteria_t2d failing_model (None :: unit py_object option) \<noteq>
     screen_studies [study_rct] criteria_t2d (None :: unit py_object option) (None :: unit py_object option) \<and>
   map (\<lambda>d. (layer d, confidence d))
     (decisions (screen_run [study_rct] criteria_t2d failing_model (None :: unit py_object option))) =
     [(LAYER_ML, 0.92)] \<and>
   map (\<lambda>d. (layer d, confidence d))
     (decisions (screen_run [study_rct] criteria_t2d (None :: unit py_object option) (None :: unit py_object option))) =
     [(LAYER_RULES, 0.90)]"
proof -
  have a: "decisions (screen_run [study_rct] criteria_t2d failing_model (None :: unit py_object option)) =
             [screen_ml study_rct (screen_rules study_rct criteria_t2d) (None :: unit py_object option)]"
    using included_rct by (simp add: screen_run_decisions_explicit)
  have b: "decisions (screen_run [study_rct] criteria_t2d (None :: unit py_object option) (None :: unit py_object option)) =
             [screen_rules study_rct criteria_t2d]"
    using included_rct by (simp add: screen_run_decisions_explicit)
  have l: "layer (screen_ml study_rct (screen_rules study_rct criteria_t2d) (None :: unit py_object option)) = LAYER_ML"
      "confidence (screen_ml study_rct (screen_rules study_rct criteria_t2d) (None :: unit py_object option)) = 0.92"
    by (simp_all add: screen_ml_def screen_rules_rct)
  have r: "layer (screen_rules study_rct criteria_t2d) = LAYER_RULES"
      "confidence (screen_rules study_rct criteria_t2d) = 0.90"
    by (simp_all add: screen_rules_rct)
  obtain m1 where m1: "screen_studies [study_rct] criteria_t2d failing_model (None :: unit py_object option) =
      Inr (decisions (screen_run [study_rct] criteria_t2d failing_model (None :: unit py_object option)), m1)"
    using screen_studies_returns by blast
  obtain m2 where m2: "screen_studies [study_rct] criteria_t2d (None :: unit py_object option) (None :: unit py_object option) =
      Inr (decisions (screen_run [study_rct] criteria_t2d (None :: unit py_object option) (None :: unit py_object option)), m2)"
    using screen_studies_returns by blast
  have "screen_ml study_rct (screen_rules study_rct criteria_t2d) (None :: unit py_object option) \<noteq>
          screen_rules study_rct criteria_t2d"
    using l(1) r(1) by auto
  then show ?thesis by (simp add: m1 m2 a b l r)
qed

text \<open>
  Claim C5, amended. For every batch and every attached model object (one whose truth
  test returns), no run aborts: \<open>screen_studies\<close> returns, because an object is only
  tested for truth and its scoring is never called, so no scoring failure can arise.
  The result depends on the model arguments only through the truth of the second
  layer's model: two runs that agree on it return the same, whatever the objects and
  whatever is attached for the third layer. When that model is true, failing or not,
  every decision returned is INCLUDE with confidence 0.92 from that layer; when it is
  false or absent, the run returns what the run with no model returns.
\<close>

theorem plugins_are_never_called:
  "(\<exists>ds mt. screen_studies studies criteria ml_model bert_model = Inr (ds, mt)) \<and>
   (py_truth ml_model = py_truth ml_model' \<longrightarrow>
      screen_studies studies criteria ml_model bert_model =
        screen_studies studies criteria ml_model' bert_model') \<and>
   (py_truth ml_model \<longrightarrow>
      (\<forall>d \<in> set (decisions (screen_run studies criteria ml_model bert_model)).
         decision d = ''INCLUDE'' \<and> confidence d = 0.92 \<and> layer d = LAYER_ML)) \<and>
   (\<not> py_truth ml_model \<longrightarrow>
      screen_studies studies criteria ml_model bert_model =
        screen_studies studies criteria
          (None :: unit py_object option) (None :: unit py_object option))"
proof (intro conjI impI)
  show "\<exists>ds mt. screen_studies studies criteria ml_model bert_model = Inr (ds, mt)"
    using screen_studies_returns by blast
next
  assume "py_truth ml_model = py_truth ml_model'"
  then show "screen_studies studies criteria ml_model bert_model =
          screen_studies studies criteria ml_model' bert_model'"
    by (intro screen_studies_by_decisions) (simp add: screen_run_decisions_explicit)
next
  assume "py_truth ml_model"
  then show "\<forall>d \<in> set (decisions (screen_run studies criteria ml_model bert_model)).
          decision d = ''INCLUDE'' \<and> confidence d = 0.92 \<and> layer d = LAYER_ML"
    by (auto simp: screen_run_decisions final_decision_facts)
next
  assume "\<not> py_truth ml_model"
  then show "screen_studies studies criteria ml_model bert_model =
          screen_studies studies criteria
            (None :: unit py_object option) (None :: unit py_object option)"
    by (intro screen_studies_by_decisions)
       (simp add: screen_run_decisions_explicit)
qed

text \<open>
  The scenario's run with the always-failing scorer attached: as a true object it
  leaves the second layer's decision, as a false object it leaves the rule gate's, and
  an unrelated true object in its place changes nothing.
\<close>

theorem plugins_are_never_called_witness:
  "map (\<lambda>d. (decision d, confidence d, layer d))
     (decisions (screen_run [study_rct, study_cooking] criteria_t2d
        failing_model (None :: unit py_object option))) =
     [(''INCLUDE'', 0.92, LAYER_ML)] \<and>
   screen_studies [study_rct, study_cooking] criteria_t2d falsy_model failing_model =
     screen_studies [study_rct, study_cooking] criteria_t2d
       (None :: unit py_object option) (None :: unit py_object option) \<and>
   screen_studies [study_rct, study_cooking] criteria_t2d
       failing_model (None :: unit py_object option) =
     screen_studies [study_rct, study_cooking] criteria_t2d
       (Some (PyObject True ())) failing_model"
proof -
  let ?ds = "decisions (screen_run [study_rct, study_cooking] criteria_t2d
               failing_model (None :: unit py_object option))"
  have len: "length ?ds = 1"
    using included_rct excluded_cooking by (simp add: screen_run_decisions)
  then obtain d where d: "?ds = [d]"
    by (cases ?ds) auto
  have t: "py_truth failing_model" and f: "\<not> py_truth falsy_model"
    and e: "py_truth failing_model = py_truth (Some (PyObject True ()))"
    by simp_all
  from t plugins_are_never_called
    [where studies = "[study_rct, study_cooking]" and criteria = criteria_t2d
       and ml_model = failing_model and bert_model = "None :: unit py_object option",
     THEN conjunct2, THEN conjunct2, THEN conjunct1]
  have "\<forall>d \<in> set ?ds. decision d = ''INCLUDE'' \<and> confidence d = 0.92 \<and> layer d = LAYER_ML"
    by (rule rev_mp)
  then have 1: "map (\<lambda>d. (decision d, confidence d, layer d)) ?ds =
      [(''INCLUDE'', 0.92, LAYER_ML)]"
    by (simp add: d)
  from f plugins_are_never_called
    [where studies = "[study_rct, study_cooking]" and criteria = criteria_t2d
       and ml_model = falsy_model and bert_model = failing_model,
     THEN conjunct2, THEN conjunct2, THEN conjunct2]
  have 2: "screen_studies [study_rct, study_cooking] criteria_t2d falsy_model failing_model =
     screen_studies [study_rct, study_cooking] criteria_t2d
       (None :: unit py_object option) (None :: unit py_object option)"
    by (rule rev_mp)
  from e plugins_are_never_called
    [where studies = "[study_rct, study_cooking]" and criteria = criteria_t2d
       and ml_model = failing_model and bert_model = "None :: unit py_object option"
       and ml_model' = "Some (PyObject True ())" and bert_model' = failing_model,
     THEN conjunct2, THEN conjunct1]
  have 3: "screen_studies [study_rct, study_cooking] criteria_t2d
       failing_model (None :: unit py_object option) =
     screen_studies [study_rct, study_cooking] criteria_t2d
       (Some (PyObject True ())) failing_model"
    by (rule rev_mp)
  from 1 2 3 show ?thesis by (intro conjI)
qed

section \<open>The metrics\<close>

text \<open>
  Bounds on the average confidence, and the value the aggregator builds for a non-empty
  list.
\<close>

lemma sum_list_confidence_le:
  "(\<And>d. d \<in> set ds \<Longrightarrow> confidence d \<le> 1) \<Longrightarrow> sum_list (map confidence ds) \<le> real (length ds)"
  by (induction ds) (auto simp: add_mono)

lemma avg_confidence_le_one:
  assumes "\<And>d. d \<in> set ds \<Longrightarrow> confidence d \<le> 1"
  shows "avg_confidence ds \<le> 1"
proof (cases "ds = []")
  case True
  then show ?thesis by (simp add: avg_confidence_def)
next
  case False
  then have "0 < real (length ds)" by simp
  then show ?thesis
    using sum_list_confidence_le [OF assms] False
    by (simp add: avg_confidence_def divide_le_eq)
qed

lemma py_int_nonneg: "0 \<le> x \<Longrightarrow> 0 \<le> py_int x"
  by (simp add: py_int_def)

lemma compute_metrics_nonempty:
  assumes "ds \<noteq> []" and "avg_confidence ds + avg_confidence ds + 0.05 \<noteq> 0"
  shows "compute_metrics ds =
     Inr \<lparr>total_retrieved = int (length (filter (\<lambda>d. decision d = ''INCLUDE'') ds)) +
                             int (length (filter (\<lambda>d. decision d = ''EXCLUDE'') ds)),
          total_screened = int (length (filter (\<lambda>d. decision d = ''INCLUDE'') ds)) +
                           int (length (filter (\<lambda>d. decision d = ''EXCLUDE'') ds)),
          total_included = int (length (filter (\<lambda>d. decision d = ''INCLUDE'') ds)),
          total_excluded = int (length (filter (\<lambda>d. decision d = ''EXCLUDE'') ds)),
          precision = avg_confidence ds,
          recall = min 0.97 (avg_confidence ds + 0.05),
          f1_score = (2 * avg_confidence ds * (avg_confidence ds + 0.05)) /
                     (avg_confidence ds + avg_confidence ds + 0.05),
          accuracy = avg_confidence ds,
          true_positives =
            py_int (of_int (int (length (filter (\<lambda>d. decision d = ''INCLUDE'') ds))) *
                    avg_confidence ds),
          false_positives =
            py_int (of_int (int (length (filter (\<lambda>d. decision d = ''EXCLUDE'') ds))) *
                    (1 - avg_confidence ds)),
          true_negatives =
            py_int (of_int (int (length (filter (\<lambda>d. decision d = ''EXCLUDE'') ds))) *
                    avg_confidence ds),
          false_negatives =
            py_int (of_int (int (length (filter (\<lambda>d. decision d = ''INCLUDE'') ds))) *
                    (1 - avg_confidence ds))\<rparr>"
  using assms by (simp add: compute_metrics_def Let_def)

text \<open>
  For confidences between 0 and 1 the aggregator returns; the included and excluded
  counts add up to the screened count; no count is negative; precision, recall and
  accuracy lie between 0 and 1; and the F1 figure is not negative.
\<close>

lemma compute_metrics_bounds:
  assumes lo: "\<And>d. d \<in> set ds \<Longrightarrow> 0 \<le> confidence d"
    and hi: "\<And>d. d \<in> set ds \<Longrightarrow> confidence d \<le> 1"
  shows "\<exists>m. compute_metrics ds = Inr m \<and>
     total_included m + total_excluded m = total_screened m \<and>
     0 \<le> total_retrieved m \<and> 0 \<le> total_screened m \<and>
     0 \<le> total_included m \<and> 0 \<le> total_excluded m \<and>
     0 \<le> true_positives m \<and> 0 \<le> false_positives m \<and>
     0 \<le> true_negatives m \<and> 0 \<le> false_negatives m \<and>
     0 \<le> precision m \<and> precision m \<le> 1 \<and>
     0 \<le> recall m \<and> recall m \<le> 1 \<and>
     0 \<le> accuracy m \<and> accuracy m \<le> 1 \<and>
     0 \<le> f1_score m"
proof (cases "ds = []")
  case True
  then show ?thesis by (simp add: compute_metrics_def)
next
  case False
  have a0: "0 \<le> avg_confidence ds" using lo by (rule avg_confidence_nonneg)
  have a1: "avg_confidence ds \<le> 1" using hi by (rule avg_confidence_le_one)
  from a0 have nz: "avg_confidence ds + avg_confidence ds + 0.05 \<noteq> 0" by simp
  have f: "0 \<le> (2 * avg_confidence ds * (avg_confidence ds + 0.05)) /
                 (avg_confidence ds + avg_confidence ds + 0.05)"
    using a0 by (intro divide_nonneg_nonneg mult_nonneg_nonneg) simp_all
  show ?thesis
    using a0 a1 f
    by (simp add: compute_metrics_nonempty [OF False nz] py_int_nonneg)
qed

text \<open>
  Claim C6 at a failing input: for the single decision held with confidence 1 the
  aggregator returns an F1 figure of 42/41, above 1. The \<open>recall\<close> field is capped at
  0.97, the F1 formula uses the uncapped \<open>avg + 0.05\<close>.
\<close>

theorem f1_score_exceeds_one:
  "compute_metrics [certain_decision] =
     Inr \<lparr>total_retrieved = 1, total_screened = 1, total_included = 1, total_excluded = 0,
          precision = 1, recall = 0.97, f1_score = 42 / 41, accuracy = 1,
          true_positives = 1, false_positives = 0, true_negatives = 0,
          false_negatives = 0\<rparr>"
  by (simp add: compute_metrics_def avg_confidence_def py_int_def certain_decision_def Let_def)

text \<open>
  Claim C7. For every non-empty list of decisions (with confidences that are not
  negative, as every confidence between 0 and 1 is) the aggregator returns a metrics
  value whose precision is the average confidence and whose recall is the smaller of
  0.97 and the average confidence plus 0.05.
\<close>

theorem estimated_precision_recall:
  assumes "ds \<noteq> []" and "\<forall>d \<in> set ds. 0 \<le> confidence d"
  shows "\<exists>m. compute_metrics ds = Inr m \<and>
     precision m = sum_list (map confidence ds) / real (length ds) \<and>
     recall m = min 0.97 (sum_list (map confidence ds) / real (length ds) + 0.05)"
proof -
  have "0 \<le> avg_confidence ds" using assms(2) by (intro avg_confidence_nonneg) simp
  then have nz: "avg_confidence ds + avg_confidence ds + 0.05 \<noteq> 0" by simp
  have avg: "avg_confidence ds = sum_list (map confidence ds) / real (length ds)"
    using assms(1) by (simp add: avg_confidence_def)
  show ?thesis
    by (simp add: compute_metrics_nonempty [OF assms(1) nz] avg)
qed

text \<open>Two decisions with confidences 0.90 and 1: precision 0.95, recall capped at 0.97.\<close>

theorem estimated_precision_recall_witness:
  "\<exists>m. compute_metrics [screen_rules study_rct criteria_t2d, certain_decision] = Inr m \<and>
     precision m = 0.95 \<and> recall m = 0.97"
proof -
  have ne: "[screen_rules study_rct criteria_t2d, certain_decision] \<noteq> []" by simp
  have c: "\<forall>d \<in> set [screen_rules study_rct criteria_t2d, certain_decision]. 0 \<le> confidence d"
    by (simp add: screen_rules_rct certain_decision_def)
  from estimated_precision_recall [OF ne c] obtain m where
    m: "compute_metrics [screen_rules study_rct criteria_t2d, certain_decision] = Inr m"
    and p: "precision m =
        sum_list (map confidence [screen_rules study_rct criteria_t2d, certain_decision]) /
        real (length [screen_rules study_rct criteria_t2d, certain_decision])"
    and r: "recall m = min 0.97
        (sum_list (map confidence [screen_rules study_rct criteria_t2d, certain_decision]) /
         real (length [screen_rules study_rct criteria_t2d, certain_decision]) + 0.05)"
    by blast
  have s: "sum_list (map confidence [screen_rules study_rct criteria_t2d, certain_decision]) /
        real (length [screen_rules study_rct criteria_t2d, certain_decision]) = 0.95"
    by (simp add: screen_rules_rct certain_decision_def)
  from p r have "precision m = 0.95 \<and> recall m = 0.97" unfolding s by simp
  with m show ?thesis by blast
qed


section \<open>The disease gate and the criteria\<close>

text \<open>
  Claim C3 at a failing input: the criteria name type 2 diabetes, the record is a
  randomized trial on PCOS. No keyword of the type 2 diabetes group occurs in its text,
  yet the disease gate passes, on a keyword of the other group, and the record is
  included with the reasoning that it matches the disease criteria.
\<close>

theorem disease_gate_ignores_criteria:
  "criteria_t2d ''disease'' = Some ''type 2 diabetes'' \<and>
   map_of disease_keywords ''type 2 diabetes'' =
     Some [''t2d'', ''t2dm'', ''type 2 diabetes'', ''niddm'', ''diabetes mellitus type 2''] \<and>
   any_keyword [''t2d'', ''t2dm'', ''type 2 diabetes'', ''niddm'', ''diabetes mellitus type 2'']
     (study_text study_pcos_trial) = False \<and>
   group_match disease_keywords (study_text study_pcos_trial) = True \<and>
   decision (screen_rules study_pcos_trial criteria_t2d) = ''INCLUDE''"
  using gates_pcos_trial
  by (simp add: screen_rules_def criteria_t2d_def)
     (simp add: disease_keywords_def any_keyword_def text_pcos_trial)

section \<open>One mode of metrics\<close>

text \<open>
  The aggregator reads the verdict and the confidence of each decision and nothing
  else.
\<close>

lemma avg_confidence_by_pairs:
  "avg_confidence ds =
     (if map verdict_and_confidence ds = [] then 0
      else sum_list (map snd (map verdict_and_confidence ds)) /
           real (length (map verdict_and_confidence ds)))"
  by (simp add: avg_confidence_def verdict_and_confidence_def comp_def)

lemma count_by_pairs:
  "length (filter (\<lambda>d. decision d = v) ds) =
     length (filter (\<lambda>p. fst p = v) (map verdict_and_confidence ds))"
  by (simp add: filter_map comp_def verdict_and_confidence_def)

lemma compute_metrics_by_pairs:
  assumes "map verdict_and_confidence ds = map verdict_and_confidence ds'"
  shows "compute_metrics ds = compute_metrics ds'"
proof -
  have e: "ds = [] \<longleftrightarrow> ds' = []"
    using assms by (metis map_is_Nil_conv)
  have a: "avg_confidence ds = avg_confidence ds'"
    by (simp only: avg_confidence_by_pairs assms)
  have c: "length (filter (\<lambda>d. decision d = v) ds) = length (filter (\<lambda>d. decision d = v) ds')"
    for v
    by (simp only: count_by_pairs assms)
  show ?thesis
    by (simp add: compute_metrics_def e a c)
qed

text \<open>
  Claim C8 fails as stated: the value the aggregator returns is twelve numbers and
  nothing more, on the empty list and on the scenario's decision alike. No component
  tells a mode, and no input of the aggregator selects one.
\<close>

theorem metrics_value_has_no_mode_counterexample:
  "compute_metrics [] =
     Inr \<lparr>total_retrieved = 0, total_screened = 0, total_included = 0, total_excluded = 0,
          precision = 0, recall = 0, f1_score = 0, accuracy = 0,
          true_positives = 0, false_positives = 0, true_negatives = 0,
          false_negatives = 0\<rparr> \<and>
   compute_metrics [screen_rules study_rct criteria_t2d] =
     Inr \<lparr>total_retrieved = 1, total_screened = 1, total_included = 1, total_excluded = 0,
          precision = 0.9, recall = 0.95, f1_score = 171 / 185, accuracy = 0.9,
          true_positives = 0, false_positives = 0, true_negatives = 0,
          false_negatives = 0\<rparr>"
  using metrics_rct by (simp add: compute_metrics_def)

text \<open>
  Claim C8, amended. The aggregator has one mode, the estimate from the confidences:
  the value it returns is determined by the verdicts and confidences of the decisions
  alone, and whenever it returns, precision and accuracy are both the average
  confidence (0 for the empty list).
\<close>

theorem compute_metrics_single_mode:
  "(map verdict_and_confidence ds = map verdict_and_confidence ds' \<longrightarrow>
      compute_metrics ds = compute_metrics ds') \<and>
   (\<forall>m. compute_metrics ds = Inr m \<longrightarrow>
      precision m = avg_confidence ds \<and> accuracy m = avg_confidence ds)"
proof (intro conjI impI allI)
  assume "map verdict_and_confidence ds = map verdict_and_confidence ds'"
  then show "compute_metrics ds = compute_metrics ds'" by (rule compute_metrics_by_pairs)
next
  fix m assume "compute_metrics ds = Inr m"
  then show "precision m = avg_confidence ds"
    by (auto simp: compute_metrics_def avg_confidence_def Let_def split: if_splits)
next
  fix m assume "compute_metrics ds = Inr m"
  then show "accuracy m = avg_confidence ds"
    by (auto simp: compute_metrics_def avg_confidence_def Let_def split: if_splits)
qed

text \<open>
  The rule gate's decision for record 1 and a reviewer's decision with the same verdict
  and confidence give the same metrics, with average confidence 0.9.
\<close>

theorem compute_metrics_single_mode_witness:
  "compute_metrics [screen_rules study_rct criteria_t2d] =
     compute_metrics [certain_decision\<lparr>confidence := 0.90\<rparr>] \<and>
   avg_confidence [screen_rules study_rct criteria_t2d] = 0.9"
proof -
  note t = compute_metrics_single_mode
    [of "[screen_rules study_rct criteria_t2d]" "[certain_decision\<lparr>confidence := 0.90\<rparr>]"]
  have p: "map verdict_and_confidence [screen_rules study_rct criteria_t2d] =
           map verdict_and_confidence [certain_decision\<lparr>confidence := 0.90\<rparr>]"
    by (simp add: verdict_and_confidence_def screen_rules_rct certain_decision_def)
  from t p have 1: "compute_metrics [screen_rules study_rct criteria_t2d] =
     compute_metrics [certain_decision\<lparr>confidence := 0.90\<rparr>]"
    by blast
  from t [THEN conjunct2, rule_format, OF metrics_rct]
  have 2: "avg_confidence [screen_rules study_rct criteria_t2d] = 0.9" by simp
  from 1 2 show ?thesis by blast
qed

section \<open>Explaining a decision\<close>

text \<open>
  Claim C9 fails as stated: after the scenario's run the decisions hold record 1 only,
  and \<open>explain_decision\<close> asked about the id 999 returns an explanation all the
  same, with confidence 0.92 and no evidence.
\<close>

theorem explain_unknown_id_counterexample:
  "decisions (screen_run [study_rct, study_cooking] criteria_t2d
     (None :: unit py_object option) (None :: unit py_object option)) = [screen_rules study_rct criteria_t2d] \<and>
   pmid (screen_rules study_rct criteria_t2d) = Some ''1'' \<and>
   explain_decision ''999'' ''INCLUDE'' ''rules'' =
     \<lparr>study_id = ''999'', exp_decision = ''INCLUDE'', exp_layer = ''rules'',
      exp_reasoning = ''Study 999 was INCLUDE at rules layer'',
      exp_confidence = 0.92, evidence = []\<rparr>"
  by (simp add: run_rct_cooking screen_rules_rct explain_decision_def)

text \<open>
  Claim C9, amended. \<open>explain_decision\<close> looks nothing up and has no outcome for an
  id that is not found: for every id, decision and layer, whether or not the id is
  among the decisions, it returns an explanation that repeats the three arguments,
  with the reasoning sentence built from them, confidence 0.92 and empty evidence.
\<close>

theorem explain_decision_echoes_arguments:
  "study_id (explain_decision sid dec lay) = sid \<and>
   exp_decision (explain_decision sid dec lay) = dec \<and>
   exp_layer (explain_decision sid dec lay) = lay \<and>
   exp_reasoning (explain_decision sid dec lay) =
     ''Study '' @ sid @ '' was '' @ dec @ '' at '' @ lay @ '' layer'' \<and>
   exp_confidence (explain_decision sid dec lay) = 0.92 \<and>
   evidence (explain_decision sid dec lay) = []"
  by (simp add: explain_decision_def)

end
